theory Spec2Isabelle
  imports Complex_Main "HOL-Library.Char_ord" "HOL-Library.List_Lexorder"
begin

section \<open>DISC3D batch reconstruction: the two Metashape drivers\<close>

text \<open>
  The repository holds two batch drivers for the Metashape engine:
  \<^verbatim>\<open>disc3d_batch_metashape.py\<close> (Method B, starting from a CamPos reference table) and
  \<^verbatim>\<open>disc3d_methodA_from_calibrated_xml.py\<close> (Method A, starting from an exported
  calibrated-camera XML). Each has \<^verbatim>\<open>read_dates\<close>, \<^verbatim>\<open>find_scans\<close>,
  \<^verbatim>\<open>process_scan\<close> and \<^verbatim>\<open>main\<close>. Definitions that exist in both files carry the
  suffix \<open>_A\<close> or \<open>_B\<close> where the two differ.

  Python strings are modelled as \<open>string\<close>; a \<open>char\<close> stands for a code point below 256.
  The text of the scan list is taken as already decoded. Paths are those of the POSIX
  flavour of \<^verbatim>\<open>pathlib\<close> (separator \<^verbatim>\<open>/\<close>, names compared as they are written).

  The file \<^verbatim>\<open>disc3d_methodA_from_calibrated_xml.py\<close> does not parse as it is shipped: its
  line 33, \<^verbatim>\<open>m = pat.match(ln);  if m: dates.append(m.group(1))\<close>, puts an \<^verbatim>\<open>if\<close> after a
  semicolon, which the Python grammar does not accept, so the interpreter rejects the
  whole file before any of its functions exists. Every definition with the suffix \<open>_A\<close>
  below is the script with that one line read as the two statements it intends
  (\<^verbatim>\<open>m = pat.match(ln)\<close>, then \<^verbatim>\<open>if m: dates.append(m.group(1))\<close>); every statement about
  Method A is a statement about the script repaired in this way.
\<close>

subsection \<open>String helpers of the Python library\<close>

text \<open>\<^verbatim>\<open>str.isspace\<close> (and \<^verbatim>\<open>\s\<close> of \<^verbatim>\<open>re\<close>) on code points below 256:
  TAB, LF, VT, FF, CR, FS, GS, RS, US, SPACE, NEL and NBSP.\<close>

definition is_space :: "char \<Rightarrow> bool" where
  "is_space c = (of_char c \<in> {9, 10, 11, 12, 13, 28, 29, 30, 31, 32, 133, 160 :: nat})"

text \<open>\<^verbatim>\<open>\d\<close> of \<^verbatim>\<open>re\<close> on code points below 256: the ten ASCII digits.\<close>

definition is_digit :: "char \<Rightarrow> bool" where
  "is_digit c = (48 \<le> (of_char c :: nat) \<and> (of_char c :: nat) \<le> 57)"

text \<open>The line boundaries of \<^verbatim>\<open>str.splitlines\<close> below 256: LF, VT, FF, CR, FS, GS, RS, NEL
  (CR LF counts as one boundary).\<close>

definition is_linebreak :: "char \<Rightarrow> bool" where
  "is_linebreak c = (of_char c \<in> {10, 11, 12, 13, 28, 29, 30, 133 :: nat})"

definition lstrip :: "string \<Rightarrow> string" where
  "lstrip s = dropWhile is_space s"

definition rstrip :: "string \<Rightarrow> string" where
  "rstrip s = rev (dropWhile is_space (rev s))"

definition strip :: "string \<Rightarrow> string" where
  "strip s = rstrip (lstrip s)"

definition startswith :: "string \<Rightarrow> string \<Rightarrow> bool" where
  "startswith s p = (take (length p) s = p)"

definition endswith :: "string \<Rightarrow> string \<Rightarrow> bool" where
  "endswith s p = (length p \<le> length s \<and> drop (length s - length p) s = p)"

text \<open>\<^verbatim>\<open>splitlines_from cur s\<close>: \<open>cur\<close> is the line being read, reversed.\<close>

function splitlines_from :: "string \<Rightarrow> string \<Rightarrow> string list" where
  "splitlines_from cur [] = (if cur = [] then [] else [rev cur])"
| "splitlines_from cur (c # cs) =
     (if is_linebreak c
      then rev cur # splitlines_from []
             (if c = CHR 0x0D \<and> cs \<noteq> [] \<and> hd cs = CHR 0x0A then tl cs else cs)
      else splitlines_from (c # cur) cs)"
  by pat_completeness auto
termination
  by (relation "measure (\<lambda>(cur, s). length s)") auto

definition splitlines :: "string \<Rightarrow> string list" where
  "splitlines s = splitlines_from [] s"

subsection \<open>\<^verbatim>\<open>read_dates\<close>\<close>

text \<open>
  \<^verbatim>\<open>pat = re.compile(r"^\s*(\d{8}T\d{6})\s*$")\<close>; \<open>pat_match line\<close> is group 1 of
  \<^verbatim>\<open>pat.match(line)\<close>, or \<open>None\<close> when there is no match. The leading \<^verbatim>\<open>\s*\<close> is greedy and
  no white-space character is a digit, so it takes exactly the leading white space.
\<close>

definition is_stamp :: "string \<Rightarrow> bool" where
  "is_stamp g = (length g = 15 \<and> list_all is_digit (take 8 g) \<and> g ! 8 = CHR ''T''
                 \<and> list_all is_digit (drop 9 g))"

definition pat_match :: "string \<Rightarrow> string option" where
  "pat_match line =
     (let s = dropWhile is_space line; g = take 15 s; rest = drop 15 s
      in if is_stamp g \<and> list_all is_space rest then Some g else None)"

fun read_dates_loop :: "string list \<Rightarrow> string list \<Rightarrow> string list" where
  "read_dates_loop [] dates = dates"
| "read_dates_loop (line # rest) dates =
     (if strip line = [] \<or> startswith (lstrip line) ''#'' then read_dates_loop rest dates
      else (case pat_match line of
              Some g \<Rightarrow> read_dates_loop rest (dates @ [g])
            | None \<Rightarrow> read_dates_loop rest dates))"

definition read_dates :: "string \<Rightarrow> string list" where
  "read_dates text = read_dates_loop (splitlines text) []"

text \<open>The reading of the scan list as the specification words it: keep the lines
  that match \<^verbatim>\<open>^\d{8}T\d{6}$\<close> after trimming, trimmed.\<close>

definition read_dates_spec :: "string \<Rightarrow> string list" where
  "read_dates_spec text = map strip (filter (\<lambda>l. is_stamp (strip l)) (splitlines text))"

subsection \<open>Exceptions\<close>

text \<open>
  An exception is its class and its message. The \<^verbatim>\<open>except\<close> clauses of the scripts name
  \<^verbatim>\<open>TypeError\<close> (a rejected call signature), \<^verbatim>\<open>AttributeError\<close> and \<^verbatim>\<open>Exception\<close>;
  \<^verbatim>\<open>ValueError\<close>, \<^verbatim>\<open>IndexError\<close>, \<^verbatim>\<open>NotImplementedError\<close>, \<^verbatim>\<open>FileExistsError\<close> and
  \<^verbatim>\<open>UnicodeDecodeError\<close> are what the Python library raises in the statements modelled below; \<open>OtherError\<close> stands for
  every other subclass of \<^verbatim>\<open>Exception\<close>.
\<close>

datatype exc_class =
  TypeError | AttributeError | ValueError | IndexError | NotImplementedError | FileExistsError
  | UnicodeDecodeError | OtherError

datatype exc = Exc exc_class string

fun exc_class_of :: "exc \<Rightarrow> exc_class" where
  "exc_class_of (Exc c m) = c"

fun exc_msg :: "exc \<Rightarrow> string" where
  "exc_msg (Exc c m) = m"

subsection \<open>Paths and the files of a scan folder\<close>

text \<open>
  A \<^verbatim>\<open>Path\<close> is the list of its parts (\<^verbatim>\<open>Path.parts\<close>). The first part of an absolute path
  is its anchor, \<^verbatim>\<open>/\<close> or \<^verbatim>\<open>//\<close>, the only part that ends with the separator.
  \<^verbatim>\<open>str(path)\<close> is the anchor followed by the other parts joined with the separator,
  \<^verbatim>\<open>path.name\<close> is the last part unless that is the anchor, and \<^verbatim>\<open>sorted\<close> compares paths
  part by part.
\<close>

type_synonym path = "string list"

definition is_anchor :: "string \<Rightarrow> bool" where
  "is_anchor part = (part \<noteq> [] \<and> last part = CHR ''/'')"

fun join_parts :: "path \<Rightarrow> string" where
  "join_parts [] = []"
| "join_parts [p] = p"
| "join_parts (p # q # ps) = p @ ''/'' @ join_parts (q # ps)"

fun path_str :: "path \<Rightarrow> string" where
  "path_str [] = ''.''"
| "path_str (p # ps) = (if is_anchor p then p @ join_parts ps else join_parts (p # ps))"

definition path_name :: "path \<Rightarrow> string" where
  "path_name p = (if p = [] \<or> is_anchor (last p) then [] else last p)"

text \<open>\<^verbatim>\<open>repr\<close> of a string that holds no quote, no backslash and no control character.\<close>

definition quoted :: "string \<Rightarrow> string" where
  "quoted s = [CHR 0x27] @ s @ [CHR 0x27]"

text \<open>
  \<open>glob_match pat name\<close>: the match of a name against a pattern that is one path
  component built from literal characters, \<^verbatim>\<open>*\<close> and \<^verbatim>\<open>?\<close>. It is applied to plain patterns
  only (\<open>plain_glob\<close> below): the patterns written in the two scripts, \<^verbatim>\<open>*__DISC3D\<close>,
  \<^verbatim>\<open>*__edof\<close>, \<^verbatim>\<open>*.png\<close>, \<^verbatim>\<open>*__CamPos.txt\<close> and the default \<^verbatim>\<open>*_Calibrated_Cameras_*.xml\<close>, are
  of this kind.
\<close>

fun glob_match :: "string \<Rightarrow> string \<Rightarrow> bool" where
  "glob_match [] s = (s = [])"
| "glob_match (p # ps) [] = (p = CHR ''*'' \<and> glob_match ps [])"
| "glob_match (p # ps) (c # cs) =
     (if p = CHR ''*'' then glob_match ps (c # cs) \<or> glob_match (p # ps) cs
      else (p = CHR ''?'' \<or> p = c) \<and> glob_match ps cs)"

fun contains :: "string \<Rightarrow> string \<Rightarrow> bool" where
  "contains sub [] = (sub = [])"
| "contains sub (c # cs) = (startswith (c # cs) sub \<or> contains sub cs)"

text \<open>
  A plain pattern: not empty, one path component (no separator) other than \<^verbatim>\<open>.\<close> and
  \<^verbatim>\<open>..\<close>, without a character class (\<^verbatim>\<open>[\<close>) and without \<^verbatim>\<open>**\<close>. On such a pattern
  \<^verbatim>\<open>Path.glob\<close> lists the directory and keeps the names that match.
\<close>

definition plain_glob :: "string \<Rightarrow> bool" where
  "plain_glob g =
     (g \<noteq> [] \<and> g \<noteq> ''.'' \<and> g \<noteq> ''..'' \<and> CHR ''/'' \<notin> set g \<and> CHR ''['' \<notin> set g
      \<and> \<not> contains ''**'' g)"

text \<open>A directory entry is a file or a directory with the names of its own entries.\<close>

datatype node = File | Dir "string list"

fun is_dir :: "node \<Rightarrow> bool" where
  "is_dir File = False"
| "is_dir (Dir _) = True"

text \<open>
  The entry \<^verbatim>\<open>models\<close> of a scan folder: missing, present but not a directory (a regular
  file, a dangling link), or a directory with the names inside it.
\<close>

datatype models_state = Absent | NotADir | IsDir "string list"

text \<open>
  A scan folder \<^verbatim>\<open><Datetime>__<uid>__<Species>__DISC3D\<close>: its path, its entries in the order
  the operating system lists them (all but \<^verbatim>\<open>models\<close>), the state of its entry
  \<^verbatim>\<open>models\<close>, and the error with which the operating system refuses to create a
  directory in the folder, if it does (no permission, a read-only file system).
\<close>

record scan_dir =
  sd_path :: path
  sd_entries :: "(string \<times> node) list"
  sd_models :: models_state
  sd_mkdir_err :: "exc option"

definition glob_entries :: "string \<Rightarrow> (string \<times> node) list \<Rightarrow> (string \<times> node) list" where
  "glob_entries pat es = filter (\<lambda>e. glob_match pat (fst e)) es"

text \<open>\<^verbatim>\<open>(scan_dir / child).glob(pat)\<close>: the matching names inside a child directory;
  nothing when the child is missing or is a file.\<close>

definition glob_child :: "scan_dir \<Rightarrow> string \<Rightarrow> string \<Rightarrow> string list" where
  "glob_child sd child pat =
     (case map_of (sd_entries sd) child of
        Some (Dir names) \<Rightarrow> filter (glob_match pat) names
      | _ \<Rightarrow> [])"

text \<open>\<^verbatim>\<open>s.replace(old, "")\<close>.\<close>

function remove_all :: "string \<Rightarrow> string \<Rightarrow> string" where
  "remove_all old s =
     (if s = [] \<or> old = [] then s
      else if startswith s old then remove_all old (drop (length old) s)
      else hd s # remove_all old (tl s))"
  by pat_completeness auto
termination
  by (relation "measure (\<lambda>(old, s). length s)") auto

text \<open>\<^verbatim>\<open>s.split(sep)[0]\<close> for a non-empty separator.\<close>

fun split_first :: "string \<Rightarrow> string \<Rightarrow> string" where
  "split_first sep [] = []"
| "split_first sep (c # cs) = (if startswith (c # cs) sep then [] else c # split_first sep cs)"

text \<open>
  \<^verbatim>\<open>re.match(r"^(.+?)__edof$", name)\<close>, group 1. The dot matches every character but
  LF, and \<^verbatim>\<open>$\<close> matches at the end or before a final LF, so the name is the group followed
  by \<^verbatim>\<open>__edof\<close> and possibly one LF.
\<close>

definition match_edof :: "string \<Rightarrow> string option" where
  "match_edof name =
     (let n = length name in
      if 6 < n \<and> drop (n - 6) name = ''__edof'' \<and> CHR 0x0A \<notin> set (take (n - 6) name)
      then Some (take (n - 6) name)
      else if 7 < n \<and> drop (n - 7) name = ''__edof'' @ [CHR 0x0A]
              \<and> CHR 0x0A \<notin> set (take (n - 7) name)
      then Some (take (n - 7) name)
      else None)"

text \<open>The loop of \<^verbatim>\<open>get_uid_and_dataset\<close> (Method B): the first directory whose name
  matches gives the uid.\<close>

fun first_uid_B :: "(string \<times> node) list \<Rightarrow> string option" where
  "first_uid_B [] = None"
| "first_uid_B (ed # eds) =
     (if is_dir (snd ed)
      then (case match_edof (fst ed) of Some u \<Rightarrow> Some u | None \<Rightarrow> first_uid_B eds)
      else first_uid_B eds)"

text \<open>The loop of \<^verbatim>\<open>get_uid_dataset\<close> (Method A): no \<^verbatim>\<open>is_dir\<close> test.\<close>

fun first_uid_A :: "(string \<times> node) list \<Rightarrow> string option" where
  "first_uid_A [] = None"
| "first_uid_A (ed # eds) =
     (case match_edof (fst ed) of Some u \<Rightarrow> Some u | None \<Rightarrow> first_uid_A eds)"

definition dataset_of :: "scan_dir \<Rightarrow> string" where
  "dataset_of sd = remove_all ''__DISC3D'' (path_name (sd_path sd))"

definition get_uid_and_dataset :: "scan_dir \<Rightarrow> string option \<times> string" where
  "get_uid_and_dataset sd =
     (first_uid_B (glob_entries ''*__edof'' (sd_entries sd)), dataset_of sd)"

definition get_uid_dataset :: "scan_dir \<Rightarrow> string option \<times> string" where
  "get_uid_dataset sd =
     (first_uid_A (glob_entries ''*__edof'' (sd_entries sd)), dataset_of sd)"

text \<open>
  \<^verbatim>\<open>models.mkdir(exist_ok=True)\<close>: the folder afterwards, or the exception. An existing
  directory is left as it is; an entry that is not a directory raises
  \<^verbatim>\<open>FileExistsError\<close>, whose message quotes the path.
\<close>

definition mkdir_models :: "scan_dir \<Rightarrow> exc + scan_dir" where
  "mkdir_models sd =
     (case sd_models sd of
        IsDir names \<Rightarrow> Inr sd
      | NotADir \<Rightarrow>
          Inl (Exc FileExistsError
                 (''[Errno 17] File exists: '' @ quoted (path_str (sd_path sd @ [''models'']))))
      | Absent \<Rightarrow>
          (case sd_mkdir_err sd of
             None \<Rightarrow> Inr (sd\<lparr>sd_models := IsDir []\<rparr>)
           | Some e \<Rightarrow> Inl e))"

definition models_names :: "scan_dir \<Rightarrow> string list" where
  "models_names sd = (case sd_models sd of IsDir names \<Rightarrow> names | _ \<Rightarrow> [])"

text \<open>
  \<^verbatim>\<open>models.glob(xml_glob)\<close>, read to its end by \<^verbatim>\<open>sorted\<close>: the paths found, relative to
  \<^verbatim>\<open>models\<close>, or the exception. The pattern comes from the command line. An empty pattern
  raises \<^verbatim>\<open>ValueError\<close> and a pattern that starts with the separator raises
  \<^verbatim>\<open>NotImplementedError\<close>; a plain pattern gives the matching names. What \<^verbatim>\<open>pathlib\<close> finds
  for any other pattern (a character class, \<^verbatim>\<open>**\<close>, several components) depends on its
  release and on what lies below \<^verbatim>\<open>models\<close>; it is a parameter, \<open>other\<close>, about which
  nothing is assumed.
\<close>

type_synonym glob_oracle = "string \<Rightarrow> scan_dir \<Rightarrow> exc + path list"

definition glob_models :: "glob_oracle \<Rightarrow> string \<Rightarrow> scan_dir \<Rightarrow> exc + path list" where
  "glob_models other xml_glob sd =
     (if xml_glob = [] then Inl (Exc ValueError (''Unacceptable pattern: '' @ quoted []))
      else if hd xml_glob = CHR ''/''
      then Inl (Exc NotImplementedError ''Non-relative patterns are unsupported'')
      else if plain_glob xml_glob
      then Inr (map (\<lambda>name. [name]) (filter (glob_match xml_glob) (models_names sd)))
      else other xml_glob sd)"

text \<open>The search for the calibrated-camera XML in Method A:
  \<^verbatim>\<open>for cand in sorted(models.glob(xml_glob)): xml = cand; break\<close>. A path is never
  false, so \<^verbatim>\<open>not xml\<close> holds exactly when nothing was found.\<close>

definition find_xml :: "glob_oracle \<Rightarrow> string \<Rightarrow> scan_dir \<Rightarrow> exc + path option" where
  "find_xml other xml_glob sd =
     (case glob_models other xml_glob sd of
        Inl e \<Rightarrow> Inl e
      | Inr hits \<Rightarrow> Inr (case sort hits of [] \<Rightarrow> None | cand # _ \<Rightarrow> Some cand))"

subsection \<open>The reconstruction engine as an oracle\<close>

text \<open>
  The Metashape module is external. Every interaction of the scripts with it (a
  constructor, a method call with its arguments as written, an attribute read or
  write) is a \<open>call\<close>; the engine answers with a value or raises, and its answer may
  depend on everything that was asked before.
\<close>

text \<open>Values the scripts look at: \<^verbatim>\<open>None\<close>, a boolean, a number, an opaque object, and a
  sequence of the given length (\<^verbatim>\<open>chunk.sensors\<close>).\<close>

datatype val = VNone | VBool bool | VNat nat | VObj | VSeq nat

fun truthy :: "val \<Rightarrow> bool" where
  "truthy VNone = False"
| "truthy (VBool b) = b"
| "truthy (VNat n) = (n \<noteq> 0)"
| "truthy VObj = True"
| "truthy (VSeq n) = (n \<noteq> 0)"

text \<open>The name of the type of a value, as Python's messages print it (an opaque object
  prints as \<^verbatim>\<open>object\<close>, a sequence as \<^verbatim>\<open>list\<close>).\<close>

fun type_name :: "val \<Rightarrow> string" where
  "type_name VNone = ''NoneType''"
| "type_name (VBool b) = ''bool''"
| "type_name (VNat n) = ''int''"
| "type_name VObj = ''object''"
| "type_name (VSeq n) = ''list''"

datatype arg = ABool bool | AInt int | AStr string | AEnum string | ACrs string | ANone

type_synonym kwargs = "(string \<times> arg) list"

text \<open>The \<^verbatim>\<open>Metashape.Calibration\<close> object the Method B script fills in: the attributes
  it assigns (\<open>None\<close>: left as constructed).\<close>

record calibration =
  cal_width :: "val option"
  cal_height :: "val option"
  cal_f :: real
  cal_cx :: real
  cal_cy :: real
  cal_k1 :: real
  cal_k2 :: real
  cal_k3 :: real
  cal_k4 :: real
  cal_p1 :: real
  cal_p2 :: real
  cal_b1 :: real
  cal_b2 :: real

datatype call =
    NewDocument
  | AddChunk
  | SetChunkLabel string
  | SaveAs string
  | Save
  | AddPhotos "string list"
  | GetSensors
  | NewCalibration
  | GetSensorAttr nat string
  | SetUserCalib nat calibration
  | SetCalibration nat calibration
  | SetFixedCalibration nat bool
  | SetChunkCrs string
  | GetChunkAttr string
  | SetCameraCrs string
  | ImportReference kwargs
  | ImportCameras "arg list"
  | UpdateTransform
  | MatchPhotos kwargs
  | AlignCameras kwargs
  | CopyChunk
  | DuplicateChunk
  | SetQCLabel string
  | SetQCEnabled bool
  | OptimizeCameras kwargs
  | BuildDepthMaps kwargs
  | BuildModel kwargs
  | ExportCameras kwargs
  | ClearDepthMaps
  | SetDepthMapsNone
  | RemoveMatches
  | SetGpuMask nat
  | SetCpuEnable bool
  | GetGpuMask
  | CoordinateSystem string

datatype resp = Returns val | Raises exc

type_synonym event = "call \<times> resp"

type_synonym engine = "event list \<Rightarrow> call \<Rightarrow> resp"

fun succeeded :: "event \<Rightarrow> bool" where
  "succeeded (c, Returns v) = True"
| "succeeded (c, Raises e) = False"

subsection \<open>Control flow of a script\<close>

text \<open>
  The state a script works on: the engine interactions so far, the lines printed to
  standard output and to standard error, and the scan folder being processed. A
  fragment of \<^verbatim>\<open>process_scan\<close> falls through to the next statement, returns the pair
  \<^verbatim>\<open>(status, message)\<close>, or raises.
\<close>

record pstate =
  trace :: "event list"
  out :: "string list"
  err :: "string list"
  dir :: scan_dir

datatype flow = Next | Return string string | Raise exc

type_synonym step = "pstate \<Rightarrow> flow \<times> pstate"

definition skip :: step where
  "skip s = (Next, s)"

fun seqs :: "step list \<Rightarrow> step" where
  "seqs [] s = (Next, s)"
| "seqs (p # ps) s = (case p s of (Next, s') \<Rightarrow> seqs ps s' | r \<Rightarrow> r)"

definition ask :: "engine \<Rightarrow> call \<Rightarrow> pstate \<Rightarrow> resp \<times> pstate" where
  "ask eng c s = (let r = eng (trace s) c in (r, s\<lparr>trace := trace s @ [(c, r)]\<rparr>))"

definition call :: "engine \<Rightarrow> call \<Rightarrow> step" where
  "call eng c s = (case ask eng c s of
                     (Returns v, s') \<Rightarrow> (Next, s')
                   | (Raises e, s') \<Rightarrow> (Raise e, s'))"

text \<open>\<^verbatim>\<open>try: body except <class>: handler\<close>; \<open>catches\<close> says which exceptions the
  clause names.\<close>

definition try_except :: "step \<Rightarrow> (exc \<Rightarrow> bool) \<Rightarrow> step \<Rightarrow> step" where
  "try_except body catches handler s =
     (case body s of
        (Raise e, s') \<Rightarrow> if catches e then handler s' else (Raise e, s')
      | r \<Rightarrow> r)"

text \<open>\<^verbatim>\<open>try: body except Exception as e: handler(e)\<close>.\<close>

definition try_except_as :: "step \<Rightarrow> (exc \<Rightarrow> step) \<Rightarrow> step" where
  "try_except_as body handler s =
     (case body s of
        (Raise e, s') \<Rightarrow> handler e s'
      | r \<Rightarrow> r)"

definition return_with :: "string \<Rightarrow> string \<Rightarrow> step" where
  "return_with status msg s = (Return status msg, s)"

definition raise_exc :: "exc \<Rightarrow> step" where
  "raise_exc e s = (Raise e, s)"

definition any_exception :: "exc \<Rightarrow> bool" where
  "any_exception e = True"

definition is_TypeError :: "exc \<Rightarrow> bool" where
  "is_TypeError e = (exc_class_of e = TypeError)"

definition is_AttributeError :: "exc \<Rightarrow> bool" where
  "is_AttributeError e = (exc_class_of e = AttributeError)"

definition print_out :: "string \<Rightarrow> step" where
  "print_out line s = (Next, s\<lparr>out := out s @ [line]\<rparr>)"

text \<open>\<^verbatim>\<open>hasattr(chunk, name)\<close>: \<^verbatim>\<open>AttributeError\<close> means no.\<close>

definition hasattr_chunk :: "engine \<Rightarrow> string \<Rightarrow> pstate \<Rightarrow> (exc + bool) \<times> pstate" where
  "hasattr_chunk eng name s =
     (case ask eng (GetChunkAttr name) s of
        (Returns v, s') \<Rightarrow> (Inr True, s')
      | (Raises e, s') \<Rightarrow> if is_AttributeError e then (Inr False, s') else (Inl e, s'))"

subsection \<open>Pipeline steps common to both scripts\<close>

definition crs_arg :: "string option \<Rightarrow> arg" where
  "crs_arg crs = (case crs of None \<Rightarrow> ANone | Some c \<Rightarrow> ACrs c)"

text \<open>\<^verbatim>\<open>if crs: chunk.crs = crs; if hasattr(chunk, "camera_crs"): chunk.camera_crs = crs\<close>.\<close>

definition set_crs :: "engine \<Rightarrow> string option \<Rightarrow> step" where
  "set_crs eng crs s =
     (case crs of
        None \<Rightarrow> (Next, s)
      | Some c \<Rightarrow>
          (case call eng (SetChunkCrs c) s of
             (Next, s1) \<Rightarrow>
               (case hasattr_chunk eng ''camera_crs'' s1 of
                  (Inl e, s2) \<Rightarrow> (Raise e, s2)
                | (Inr True, s2) \<Rightarrow> call eng (SetCameraCrs c) s2
                | (Inr False, s2) \<Rightarrow> (Next, s2))
           | r \<Rightarrow> r))"

text \<open>\<^verbatim>\<open>doc = Metashape.Document(); chunk = doc.addChunk(); chunk.label = "DISC3D";
  doc.save(str(psz))\<close>.\<close>

definition start_project :: "engine \<Rightarrow> string \<Rightarrow> step" where
  "start_project eng psz =
     seqs [call eng NewDocument, call eng AddChunk, call eng (SetChunkLabel ''DISC3D''),
           call eng (SaveAs psz)]"

definition add_photos :: "engine \<Rightarrow> string list \<Rightarrow> step" where
  "add_photos eng imgs = seqs [call eng (AddPhotos imgs), call eng Save]"

text \<open>The keyword arguments of the two \<^verbatim>\<open>matchPhotos\<close> calls: they differ in the first
  one only (\<^verbatim>\<open>accuracy=Metashape.HighestAccuracy\<close> or \<^verbatim>\<open>downscale=0\<close>).\<close>

definition match_kwargs :: "string \<times> arg \<Rightarrow> int \<Rightarrow> int \<Rightarrow> bool \<Rightarrow> kwargs" where
  "match_kwargs first key_limit tie_limit keep_keypoints =
     [first,
      (''generic_preselection'', ABool True),
      (''reference_preselection'', ABool True),
      (''reference_preselection_mode'', AEnum ''ReferencePreselectionSource''),
      (''keypoint_limit'', AInt key_limit),
      (''tiepoint_limit'', AInt tie_limit),
      (''keep_keypoints'', ABool keep_keypoints),
      (''guided_matching'', ABool False),
      (''filter_stationary_points'', ABool True)]"

definition match_primary :: "int \<Rightarrow> int \<Rightarrow> bool \<Rightarrow> call" where
  "match_primary k t keep = MatchPhotos (match_kwargs (''accuracy'', AEnum ''HighestAccuracy'') k t keep)"

definition match_fallback :: "int \<Rightarrow> int \<Rightarrow> bool \<Rightarrow> call" where
  "match_fallback k t keep = MatchPhotos (match_kwargs (''downscale'', AInt 0) k t keep)"

definition match_photos :: "engine \<Rightarrow> int \<Rightarrow> int \<Rightarrow> bool \<Rightarrow> step" where
  "match_photos eng k t keep =
     try_except (call eng (match_primary k t keep)) any_exception
       (call eng (match_fallback k t keep))"

definition align_primary :: call where
  "align_primary = AlignCameras [(''adaptive_fitting'', ABool False)]"

definition align_fallback :: call where
  "align_fallback = AlignCameras []"

definition align_cameras :: "engine \<Rightarrow> step" where
  "align_cameras eng = try_except (call eng align_primary) is_TypeError (call eng align_fallback)"

definition model_primary :: call where
  "model_primary = BuildModel
     [(''source_data'', AEnum ''DepthMapsData''),
      (''surface_type'', AEnum ''Arbitrary''),
      (''interpolation'', AEnum ''EnabledInterpolation''),
      (''face_count'', AEnum ''HighFaceCount''),
      (''vertex_colors'', ABool True)]"

definition model_legacy :: call where
  "model_legacy = BuildModel
     [(''source'', AEnum ''DepthMapsData''),
      (''surface'', AEnum ''Arbitrary''),
      (''interpolation'', AEnum ''EnabledInterpolation''),
      (''face_count'', AEnum ''HighFaceCount''),
      (''vertex_colors'', ABool True)]"

definition model_default :: call where
  "model_default = BuildModel []"

definition model_rest :: "engine \<Rightarrow> step" where
  "model_rest eng = try_except (call eng model_legacy) any_exception (call eng model_default)"

definition build_model :: "engine \<Rightarrow> step" where
  "build_model eng = try_except (call eng model_primary) is_TypeError (model_rest eng)"

definition build_model_step :: "engine \<Rightarrow> step" where
  "build_model_step eng = seqs [build_model eng, call eng Save]"

definition depth_downscale :: call where
  "depth_downscale = BuildDepthMaps [(''downscale'', AInt 1), (''filter_mode'', AEnum ''MildFiltering'')]"

definition depth_quality :: call where
  "depth_quality = BuildDepthMaps [(''quality'', AEnum ''UltraQuality''), (''filter'', AEnum ''MildFiltering'')]"

definition depth_default :: call where
  "depth_default = BuildDepthMaps []"

subsection \<open>Method B: \<^verbatim>\<open>process_scan\<close> of \<^verbatim>\<open>disc3d_batch_metashape.py\<close>\<close>

text \<open>\<^verbatim>\<open>getattr(sensor, name, None)\<close>: \<^verbatim>\<open>AttributeError\<close> gives the default.\<close>

definition getattr_sensor :: "engine \<Rightarrow> string \<Rightarrow> pstate \<Rightarrow> (exc + val) \<times> pstate" where
  "getattr_sensor eng name s =
     (case ask eng (GetSensorAttr 0 name) s of
        (Returns v, s') \<Rightarrow> (Inr v, s')
      | (Raises e, s') \<Rightarrow> if is_AttributeError e then (Inr VNone, s') else (Inl e, s'))"

text \<open>\<^verbatim>\<open>if getattr(sensor, name, None): cal.<name> = sensor.<name>\<close>: the value assigned,
  if any, or the exception raised.\<close>

definition copy_dim :: "engine \<Rightarrow> string \<Rightarrow> pstate \<Rightarrow> (exc + val option) \<times> pstate" where
  "copy_dim eng name s =
     (case getattr_sensor eng name s of
        (Inl e, s1) \<Rightarrow> (Inl e, s1)
      | (Inr v, s1) \<Rightarrow>
          if truthy v
          then (case ask eng (GetSensorAttr 0 name) s1 of
                  (Returns v', s2) \<Rightarrow> (Inr (Some v'), s2)
                | (Raises e, s2) \<Rightarrow> (Inl e, s2))
          else (Inr None, s1))"

text \<open>The \<^verbatim>\<open>try\<close> block that carries the image size over; \<^verbatim>\<open>except Exception: pass\<close>
  keeps what was assigned before the exception.\<close>

definition copy_dims :: "engine \<Rightarrow> pstate \<Rightarrow> (val option \<times> val option) \<times> pstate" where
  "copy_dims eng s =
     (case copy_dim eng ''width'' s of
        (Inl e, s1) \<Rightarrow> ((None, None), s1)
      | (Inr w, s1) \<Rightarrow>
          (case copy_dim eng ''height'' s1 of
             (Inl e, s2) \<Rightarrow> ((w, None), s2)
           | (Inr h, s2) \<Rightarrow> ((w, h), s2)))"

text \<open>\<^verbatim>\<open>cal.f = float(f_px); cal.cx = cal.cy = 0; cal.k1 = ... = cal.k4 = 0;
  cal.p1 = cal.p2 = 0; cal.b1 = cal.b2 = 0\<close>.\<close>

definition seed_calibration :: "val option \<Rightarrow> val option \<Rightarrow> real \<Rightarrow> calibration" where
  "seed_calibration w h f_px =
     \<lparr>cal_width = w, cal_height = h, cal_f = f_px, cal_cx = 0, cal_cy = 0,
      cal_k1 = 0, cal_k2 = 0, cal_k3 = 0, cal_k4 = 0, cal_p1 = 0, cal_p2 = 0,
      cal_b1 = 0, cal_b2 = 0\<rparr>"

text \<open>\<^verbatim>\<open>chunk.sensors[0]\<close> on the value read: the exception raised, if any.\<close>

fun subscript0 :: "val \<Rightarrow> exc option" where
  "subscript0 (VSeq n) = (if n = 0 then Some (Exc IndexError ''list index out of range'') else None)"
| "subscript0 v = Some (Exc TypeError (quoted (type_name v) @ '' object is not subscriptable''))"

definition write_calibration :: "engine \<Rightarrow> calibration \<Rightarrow> step" where
  "write_calibration eng cal =
     seqs [call eng (SetUserCalib 0 cal), call eng (SetCalibration 0 cal),
           call eng (SetFixedCalibration 0 False), call eng Save]"

definition calibrate_B :: "engine \<Rightarrow> real \<Rightarrow> step" where
  "calibrate_B eng f_px s =
     (case ask eng GetSensors s of
        (Raises e, s1) \<Rightarrow> (Raise e, s1)
      | (Returns v, s1) \<Rightarrow>
          if \<not> truthy v then (Return ''fail'' ''No sensor after adding photos'', s1)
          else
            (case ask eng GetSensors s1 of
               (Raises e, s2) \<Rightarrow> (Raise e, s2)
             | (Returns v2, s2) \<Rightarrow>
                 (case subscript0 v2 of
                    Some e \<Rightarrow> (Raise e, s2)
                  | None \<Rightarrow>
                      (case call eng NewCalibration s2 of
                         (Next, s3) \<Rightarrow>
                           (case copy_dims eng s3 of
                              ((w, h), s4) \<Rightarrow>
                                write_calibration eng (seed_calibration w h f_px) s4)
                       | r \<Rightarrow> r))))"

definition reference_kwargs :: "string \<Rightarrow> string option \<Rightarrow> kwargs" where
  "reference_kwargs campos crs =
     [(''path'', AStr campos),
      (''format'', AEnum ''ReferenceFormatCSV''),
      (''columns'', AStr ''nxyz''),
      (''delimiter'', AStr '' ''),
      (''items'', AEnum ''ReferenceItemsCameras''),
      (''crs'', crs_arg crs),
      (''skip_rows'', AInt 1),
      (''group_delimiters'', ABool False)]"

definition import_reference :: "engine \<Rightarrow> string \<Rightarrow> string option \<Rightarrow> step" where
  "import_reference eng campos crs =
     seqs [set_crs eng crs, call eng (ImportReference (reference_kwargs campos crs)),
           call eng Save]"

definition match_and_align_B :: "engine \<Rightarrow> step" where
  "match_and_align_B eng =
     seqs [match_photos eng 250000 250000 False, align_cameras eng, call eng Save]"

text \<open>\<^verbatim>\<open>qc_chunk\<close> after the nested \<^verbatim>\<open>try\<close> blocks around \<^verbatim>\<open>chunk.copy()\<close> and
  \<^verbatim>\<open>chunk.duplicate()\<close>.\<close>

definition duplicate_chunk :: "engine \<Rightarrow> pstate \<Rightarrow> val \<times> pstate" where
  "duplicate_chunk eng s =
     (case ask eng CopyChunk s of
        (Returns v, s1) \<Rightarrow> (v, s1)
      | (Raises e, s1) \<Rightarrow>
          (case ask eng DuplicateChunk s1 of
             (Returns v, s2) \<Rightarrow> (v, s2)
           | (Raises e', s2) \<Rightarrow> (VNone, s2)))"

definition qc_warning :: string where
  "qc_warning = ''[WARN] QC chunk could not be duplicated; continuing.''"

text \<open>The label written is \<^verbatim>\<open>f"{chunk.label}__QC_ALIGNED"\<close>, with \<^verbatim>\<open>chunk.label\<close> the value
  the script assigned when it created the chunk.\<close>

definition qc_label :: string where
  "qc_label = ''DISC3D'' @ ''__QC_ALIGNED''"

definition qc_snapshot :: "engine \<Rightarrow> step" where
  "qc_snapshot eng s =
     (case duplicate_chunk eng s of
        (qc_chunk, s1) \<Rightarrow>
          if truthy qc_chunk
          then seqs [try_except (call eng (SetQCLabel qc_label)) any_exception skip,
                     try_except (call eng (SetQCEnabled False)) any_exception skip,
                     call eng Save] s1
          else print_out qc_warning s1)"

definition optimize_full_B :: call where
  "optimize_full_B = OptimizeCameras
     [(''fit_f'', ABool True), (''fit_cx'', ABool False), (''fit_cy'', ABool False),
      (''fit_b1'', ABool False), (''fit_b2'', ABool False),
      (''fit_k1'', ABool False), (''fit_k2'', ABool False), (''fit_k3'', ABool False),
      (''fit_k4'', ABool False),
      (''fit_p1'', ABool False), (''fit_p2'', ABool False), (''fit_p3'', ABool False),
      (''fit_p4'', ABool False),
      (''adaptive_fitting'', ABool False)]"

definition optimize_old_B :: call where
  "optimize_old_B = OptimizeCameras
     [(''fit_f'', ABool True), (''fit_cx'', ABool False), (''fit_cy'', ABool False),
      (''fit_b1'', ABool False), (''fit_b2'', ABool False),
      (''fit_k1'', ABool False), (''fit_k2'', ABool False), (''fit_k3'', ABool False),
      (''fit_k4'', ABool False),
      (''fit_p1'', ABool False), (''fit_p2'', ABool False)]"

definition optimize_calls_B :: "engine \<Rightarrow> step" where
  "optimize_calls_B eng =
     try_except (call eng optimize_full_B) is_TypeError (call eng optimize_old_B)"

definition optimize_B :: "engine \<Rightarrow> step" where
  "optimize_B eng = seqs [optimize_calls_B eng, call eng Save]"

definition depth_rest_B :: "engine \<Rightarrow> step" where
  "depth_rest_B eng = try_except (call eng depth_quality) any_exception (call eng depth_default)"

definition depth_calls_B :: "engine \<Rightarrow> step" where
  "depth_calls_B eng = try_except (call eng depth_downscale) is_TypeError (depth_rest_B eng)"

definition build_depth_B :: "engine \<Rightarrow> step" where
  "build_depth_B eng = seqs [depth_calls_B eng, call eng Save]"

definition export_primary :: "string \<Rightarrow> string option \<Rightarrow> call" where
  "export_primary cams_xml crs = ExportCameras
     [(''path'', AStr cams_xml),
      (''format'', AEnum ''CamerasFormatXML''),
      (''crs'', crs_arg crs),
      (''save_points'', ABool True),
      (''save_markers'', ABool False),
      (''use_labels'', ABool False)]"

definition export_legacy :: "string \<Rightarrow> string option \<Rightarrow> call" where
  "export_legacy cams_xml crs = ExportCameras
     [(''path'', AStr cams_xml),
      (''format'', AEnum ''CamerasFormatXML''),
      (''projection'', crs_arg crs),
      (''export_points'', ABool True),
      (''export_markers'', ABool False),
      (''use_labels'', ABool False)]"

definition export_calls :: "engine \<Rightarrow> string \<Rightarrow> string option \<Rightarrow> step" where
  "export_calls eng cams_xml crs =
     try_except (call eng (export_primary cams_xml crs)) is_TypeError
       (call eng (export_legacy cams_xml crs))"

definition export_cameras :: "engine \<Rightarrow> string \<Rightarrow> string option \<Rightarrow> step" where
  "export_cameras eng cams_xml crs = seqs [export_calls eng cams_xml crs, call eng Save]"

text \<open>\<^verbatim>\<open>models = scan_dir / "models"; models.mkdir(exist_ok=True)\<close>.\<close>

definition mkdir_step :: step where
  "mkdir_step s =
     (case mkdir_models (dir s) of
        Inl e \<Rightarrow> (Raise e, s)
      | Inr sd \<Rightarrow> (Next, s\<lparr>dir := sd\<rparr>))"

text \<open>The statements of \<^verbatim>\<open>process_scan\<close> after the three validation checks.\<close>

definition pipeline_B ::
  "engine \<Rightarrow> real \<Rightarrow> string option \<Rightarrow> string list \<Rightarrow> string \<Rightarrow> string \<Rightarrow> string \<Rightarrow> step" where
  "pipeline_B eng f_px crs imgs campos psz cams_xml =
     seqs [mkdir_step,
           start_project eng psz,
           add_photos eng imgs,
           calibrate_B eng f_px,
           import_reference eng campos crs,
           match_and_align_B eng,
           qc_snapshot eng,
           optimize_B eng,
           build_depth_B eng,
           build_model_step eng,
           export_cameras eng cams_xml crs,
           return_with ''ok'' (''Saved '' @ psz @ ''  cams_xml='' @ cams_xml)]"

definition no_edof_msg :: string where
  "no_edof_msg = ''No '' @ [CHR 0x27] @ ''<uid>__edof'' @ [CHR 0x27] @ '' folder found''"

definition process_scan_B :: "engine \<Rightarrow> real \<Rightarrow> string option \<Rightarrow> step" where
  "process_scan_B eng f_px crs s =
     (let scan = dir s; (uid_opt, dataset_id) = get_uid_and_dataset scan in
      case uid_opt of
        None \<Rightarrow> (Return ''fail'' no_edof_msg, s)
      | Some uid \<Rightarrow>
          let edof = sd_path scan @ [uid @ ''__edof''];
              imgs = sort (glob_child scan (uid @ ''__edof'') ''*.png'')
          in if imgs = [] then (Return ''fail'' (''No PNGs in '' @ path_str edof), s)
             else
               let campos_list = glob_entries ''*__CamPos.txt'' (sd_entries scan)
               in if length campos_list \<noteq> 1
                  then (Return ''fail'' ''Missing or multiple CamPos.txt'', s)
                  else
                    let campos = sd_path scan @ [fst (hd campos_list)];
                        models = sd_path scan @ [''models''];
                        psz = models @ [dataset_id @ ''.psz''];
                        cams_xml = models @ [dataset_id @ ''_Calibrated_Cameras_'' @ uid @ ''_''
                                      @ split_first ''__'' dataset_id @ ''.xml'']
                    in pipeline_B eng f_px crs (map (\<lambda>p. path_str (edof @ [p])) imgs)
                         (path_str campos) (path_str psz) (path_str cams_xml) s)"

subsection \<open>Method A: \<^verbatim>\<open>process_scan\<close> of \<^verbatim>\<open>disc3d_methodA_from_calibrated_xml.py\<close>\<close>

text \<open>
  This is the script with its line 33 read as two statements (as shipped, the file does
  not parse); its \<^verbatim>\<open>read_dates\<close> is then the function \<open>read_dates\<close> above, applied to the
  text that \<^verbatim>\<open>errors="ignore"\<close> decodes.
\<close>

definition digit_char :: "nat \<Rightarrow> char" where
  "digit_char d = (if d < 10 then char_of (48 + d) else char_of (87 + d))"

function digits_of :: "nat \<Rightarrow> nat \<Rightarrow> string" where
  "digits_of b n =
     (if b < 2 \<or> n < b then [digit_char n]
      else digits_of b (n div b) @ [digit_char (n mod b)])"
  by pat_completeness auto
termination
  by (relation "measure (\<lambda>(b, n). n)") auto

text \<open>How a value prints under \<^verbatim>\<open>{...:x}\<close>: integers (and booleans) only.\<close>

fun hex_of_val :: "val \<Rightarrow> string option" where
  "hex_of_val (VNat n) = Some (digits_of 16 n)"
| "hex_of_val (VBool b) = Some (if b then ''1'' else ''0'')"
| "hex_of_val v = None"

definition gpu_report :: "engine \<Rightarrow> nat \<Rightarrow> step" where
  "gpu_report eng idx s =
     (case ask eng GetGpuMask s of
        (Raises e, s1) \<Rightarrow> (Raise e, s1)
      | (Returns v, s1) \<Rightarrow>
          (case hex_of_val v of
             None \<Rightarrow>
               (Raise (Exc TypeError (''unsupported format string passed to '' @ type_name v
                                        @ ''.__format__'')), s1)
           | Some h \<Rightarrow>
               print_out (''[GPU] using index '' @ digits_of 10 idx @ '' (mask=0x'' @ h @ '')'') s1))"

text \<open>\<^verbatim>\<open>Metashape.app.gpu_mask = 1 << int(idx); Metashape.app.cpu_enable = True\<close>; a
  negative shift count raises \<^verbatim>\<open>ValueError\<close>.\<close>

definition set_gpu :: "engine \<Rightarrow> int \<Rightarrow> step" where
  "set_gpu eng idx =
     (if idx < 0 then raise_exc (Exc ValueError ''negative shift count'')
      else seqs [call eng (SetGpuMask (2 ^ nat idx)), call eng (SetCpuEnable True)])"

definition enable_gpu_index :: "engine \<Rightarrow> int option \<Rightarrow> step" where
  "enable_gpu_index eng gpu_index =
     (case gpu_index of
        None \<Rightarrow> skip
      | Some idx \<Rightarrow>
          try_except_as (seqs [set_gpu eng idx, gpu_report eng (nat idx)])
            (\<lambda>e. print_out (''[GPU] warn: '' @ exc_msg e)))"

definition import_primary :: "string \<Rightarrow> string option \<Rightarrow> call" where
  "import_primary xml crs = ImportCameras [AStr xml, AEnum ''CamerasFormatXML'', crs_arg crs]"

definition import_fallback :: "string \<Rightarrow> call" where
  "import_fallback xml = ImportCameras [AStr xml, AEnum ''CamerasFormatXML'']"

definition import_rest :: "engine \<Rightarrow> string \<Rightarrow> step" where
  "import_rest eng xml =
     try_except_as (call eng (import_fallback xml))
       (\<lambda>e. return_with ''fail'' (''importCameras failed: '' @ exc_msg e))"

definition import_cameras :: "engine \<Rightarrow> string \<Rightarrow> string option \<Rightarrow> step" where
  "import_cameras eng xml crs =
     try_except (call eng (import_primary xml crs)) is_TypeError (import_rest eng xml)"

text \<open>\<^verbatim>\<open>for s in chunk.sensors: try: s.fixed_calibration = True except Exception: pass\<close>.\<close>

definition lock_sensor :: "engine \<Rightarrow> nat \<Rightarrow> step" where
  "lock_sensor eng i = try_except (call eng (SetFixedCalibration i True)) any_exception skip"

definition lock_sensors :: "engine \<Rightarrow> step" where
  "lock_sensors eng s =
     (case ask eng GetSensors s of
        (Raises e, s1) \<Rightarrow> (Raise e, s1)
      | (Returns (VSeq n), s1) \<Rightarrow> seqs (map (lock_sensor eng) [0..<n]) s1
      | (Returns v, s1) \<Rightarrow>
          (Raise (Exc TypeError (quoted (type_name v) @ '' object is not iterable'')), s1))"

definition import_and_lock :: "engine \<Rightarrow> string \<Rightarrow> string option \<Rightarrow> step" where
  "import_and_lock eng xml crs =
     seqs [set_crs eng crs,
           import_cameras eng xml crs,
           try_except (call eng UpdateTransform) any_exception skip,
           lock_sensors eng]"

definition match_and_align_A :: "engine \<Rightarrow> int \<Rightarrow> int \<Rightarrow> bool \<Rightarrow> step" where
  "match_and_align_A eng key_limit tie_limit keep_keypoints =
     seqs [match_photos eng key_limit tie_limit keep_keypoints, align_cameras eng,
           call eng Save]"

definition optimize_call_A :: call where
  "optimize_call_A = OptimizeCameras
     [(''fit_f'', ABool False), (''fit_cx'', ABool False), (''fit_cy'', ABool False),
      (''fit_b1'', ABool False), (''fit_b2'', ABool False),
      (''fit_k1'', ABool False), (''fit_k2'', ABool False), (''fit_k3'', ABool False),
      (''fit_k4'', ABool False),
      (''fit_p1'', ABool False), (''fit_p2'', ABool False),
      (''fit_corrections'', ABool False), (''adaptive_fitting'', ABool False),
      (''tiepoint_covariance'', ABool False)]"

definition optimize_calls_A :: "engine \<Rightarrow> step" where
  "optimize_calls_A eng = try_except (call eng optimize_call_A) is_TypeError skip"

definition optimize_A :: "engine \<Rightarrow> step" where
  "optimize_A eng = seqs [optimize_calls_A eng, call eng Save]"

definition depth_rest_A :: "engine \<Rightarrow> step" where
  "depth_rest_A eng =
     try_except (call eng depth_downscale) any_exception (call eng depth_default)"

definition depth_calls_A :: "engine \<Rightarrow> step" where
  "depth_calls_A eng = try_except (call eng depth_quality) any_exception (depth_rest_A eng)"

definition build_depth_A :: "engine \<Rightarrow> step" where
  "build_depth_A eng = seqs [depth_calls_A eng, call eng Save]"

definition depth_maps_none :: "engine \<Rightarrow> step" where
  "depth_maps_none eng = try_except (call eng SetDepthMapsNone) any_exception skip"

definition clear_depth_maps :: "engine \<Rightarrow> step" where
  "clear_depth_maps eng =
     try_except (call eng ClearDepthMaps) is_AttributeError (depth_maps_none eng)"

definition remove_matches :: "engine \<Rightarrow> step" where
  "remove_matches eng s =
     (case hasattr_chunk eng ''removeMatches'' s of
        (Inl e, s1) \<Rightarrow> (Raise e, s1)
      | (Inr True, s1) \<Rightarrow> try_except (call eng RemoveMatches) any_exception skip s1
      | (Inr False, s1) \<Rightarrow> (Next, s1))"

definition thin_project :: "engine \<Rightarrow> bool \<Rightarrow> bool \<Rightarrow> step" where
  "thin_project eng clear_depth clear_matches =
     seqs [if clear_depth then clear_depth_maps eng else skip,
           if clear_matches then remove_matches eng else skip]"

text \<open>The statements of \<^verbatim>\<open>process_scan\<close> from \<^verbatim>\<open>doc = Metashape.Document()\<close> on.\<close>

definition pipeline_A ::
  "engine \<Rightarrow> string option \<Rightarrow> int option \<Rightarrow> int \<Rightarrow> int \<Rightarrow> bool \<Rightarrow> bool \<Rightarrow> bool
     \<Rightarrow> string list \<Rightarrow> string \<Rightarrow> string \<Rightarrow> string \<Rightarrow> step" where
  "pipeline_A eng crs gpu_index key_limit tie_limit keep_keypoints keep_depth keep_matches
       imgs psz xml xml_name =
     seqs [seqs [start_project eng psz, enable_gpu_index eng gpu_index],
           add_photos eng imgs,
           import_and_lock eng xml crs,
           match_and_align_A eng key_limit tie_limit keep_keypoints,
           optimize_A eng,
           build_depth_A eng,
           build_model_step eng,
           seqs [thin_project eng (\<not> keep_depth) (\<not> keep_matches), call eng Save],
           return_with ''ok'' (''Saved '' @ psz @ ''  using XML='' @ xml_name)]"

definition no_xml_msg :: "string \<Rightarrow> string \<Rightarrow> string" where
  "no_xml_msg models xml_glob =
     ''No calibrated cameras XML found in '' @ models @ '' matching '' @ [CHR 0x27] @ xml_glob
       @ [CHR 0x27]"

text \<open>The statements from \<^verbatim>\<open>models.mkdir\<close> on, for the images found.\<close>

definition resolve_xml_A ::
  "glob_oracle \<Rightarrow> engine \<Rightarrow> string option \<Rightarrow> int option \<Rightarrow> string \<Rightarrow> int \<Rightarrow> int \<Rightarrow> bool \<Rightarrow> bool
     \<Rightarrow> bool \<Rightarrow> string list \<Rightarrow> string \<Rightarrow> step" where
  "resolve_xml_A other eng crs gpu_index xml_glob key_limit tie_limit keep_keypoints keep_depth
       keep_matches imgs dataset_id s =
     (case mkdir_step s of
        (Next, s1) \<Rightarrow>
          let models = sd_path (dir s) @ [''models''];
              psz = models @ [dataset_id @ ''.psz'']
          in (case find_xml other xml_glob (dir s1) of
                Inl e \<Rightarrow> (Raise e, s1)
              | Inr None \<Rightarrow> (Return ''fail'' (no_xml_msg (path_str models) xml_glob), s1)
              | Inr (Some xml) \<Rightarrow>
                  pipeline_A eng crs gpu_index key_limit tie_limit keep_keypoints
                    keep_depth keep_matches imgs (path_str psz) (path_str (models @ xml))
                    (path_name (models @ xml)) s1)
      | r \<Rightarrow> r)"

definition process_scan_A ::
  "glob_oracle \<Rightarrow> engine \<Rightarrow> string option \<Rightarrow> int option \<Rightarrow> string \<Rightarrow> int \<Rightarrow> int \<Rightarrow> bool \<Rightarrow> bool
     \<Rightarrow> bool \<Rightarrow> step" where
  "process_scan_A other eng crs gpu_index xml_glob key_limit tie_limit keep_keypoints keep_depth
       keep_matches s =
     (let scan = dir s; (uid_opt, dataset_id) = get_uid_dataset scan in
      case uid_opt of
        None \<Rightarrow> (Return ''fail'' no_edof_msg, s)
      | Some uid \<Rightarrow>
          let edof = sd_path scan @ [uid @ ''__edof''];
              imgs = sort (glob_child scan (uid @ ''__edof'') ''*.png'')
          in if imgs = [] then (Return ''fail'' (''No PNGs in '' @ path_str edof), s)
             else resolve_xml_A other eng crs gpu_index xml_glob key_limit tie_limit
                    keep_keypoints keep_depth keep_matches
                    (map (\<lambda>p. path_str (edof @ [p])) imgs) dataset_id s)"

subsection \<open>\<^verbatim>\<open>find_scans\<close>, \<^verbatim>\<open>load_crs\<close> and \<^verbatim>\<open>main\<close>\<close>

text \<open>
  What is behind a path that exists and that a script reads as text: valid UTF-8 (the
  text), bytes that are not valid UTF-8 (the message of the \<^verbatim>\<open>UnicodeDecodeError\<close> and the
  text that decoding with \<^verbatim>\<open>errors="ignore"\<close> gives), or something that cannot be read (a
  directory, a file without permission) with the exception that reading raises.
\<close>

datatype content = Text string | Garbled string string | Unreadable exc

text \<open>\<^verbatim>\<open>path.read_text(encoding="utf-8")\<close> (Method B) and
  \<^verbatim>\<open>path.read_text(encoding="utf-8", errors="ignore")\<close> (Method A).\<close>

fun read_text_strict :: "content \<Rightarrow> exc + string" where
  "read_text_strict (Text t) = Inr t"
| "read_text_strict (Garbled msg t) = Inl (Exc UnicodeDecodeError msg)"
| "read_text_strict (Unreadable e) = Inl e"

fun read_text_ignore :: "content \<Rightarrow> exc + string" where
  "read_text_ignore (Text t) = Inr t"
| "read_text_ignore (Garbled msg t) = Inr t"
| "read_text_ignore (Unreadable e) = Inl e"

text \<open>
  What \<^verbatim>\<open>main\<close> reads from the file system: every path below the root that
  \<^verbatim>\<open>rglob\<close> visits, with its \<^verbatim>\<open>is_dir\<close> answer (\<open>None\<close> when the root does not exist), the scan
  list and the \<^verbatim>\<open>--mm-prj\<close> file (\<open>None\<close> when the path does not exist).
\<close>

record world =
  w_tree :: "(scan_dir \<times> bool) list option"
  w_list :: "content option"
  w_prj :: "content option"

definition scan_name :: "scan_dir \<Rightarrow> string" where
  "scan_name d = path_name (sd_path d)"

definition dated :: "string list \<Rightarrow> string \<Rightarrow> bool" where
  "dated dates name = list_ex (\<lambda>dt. startswith name (dt @ ''__'')) dates"

definition rglob_disc3d :: "(scan_dir \<times> bool) list \<Rightarrow> (scan_dir \<times> bool) list" where
  "rglob_disc3d tree = filter (\<lambda>d. glob_match ''*__DISC3D'' (scan_name (fst d))) tree"

definition find_scans_B :: "(scan_dir \<times> bool) list \<Rightarrow> string list \<Rightarrow> scan_dir list" where
  "find_scans_B tree dates =
     sort_key sd_path
       (map fst (filter (\<lambda>d. snd d \<and> contains ''__'' (scan_name (fst d))
                                \<and> dated dates (scan_name (fst d)))
                   (rglob_disc3d tree)))"

definition find_scans_A :: "(scan_dir \<times> bool) list \<Rightarrow> string list \<Rightarrow> scan_dir list" where
  "find_scans_A tree dates =
     sort_key sd_path
       (map fst (filter (\<lambda>d. snd d \<and> dated dates (scan_name (fst d))) (rglob_disc3d tree)))"

text \<open>
  \<^verbatim>\<open>load_crs(Path(args.mm_prj)) if args.mm_prj else None\<close>, for the way \<open>read\<close> in which the
  script reads the file. The coordinate system is represented by its WKT text; one that
  the engine returns as a false value counts as none, as in the tests \<^verbatim>\<open>if crs\<close> of
  \<^verbatim>\<open>process_scan\<close>.
\<close>

definition load_crs ::
  "(content \<Rightarrow> exc + string) \<Rightarrow> engine \<Rightarrow> string option \<Rightarrow> content option \<Rightarrow> pstate
     \<Rightarrow> (exc + string option) \<times> pstate" where
  "load_crs read eng mm_prj prj s =
     (case mm_prj of
        None \<Rightarrow> (Inr None, s)
      | Some p \<Rightarrow>
          if p = [] then (Inr None, s)
          else
            (case prj of
               None \<Rightarrow> (Inr None, s)
             | Some c \<Rightarrow>
                 (case read c of
                    Inl e \<Rightarrow> (Inl e, s)
                  | Inr text \<Rightarrow>
                      let wkt = strip text in
                      if wkt = [] then (Inr None, s)
                      else (case ask eng (CoordinateSystem wkt) s of
                              (Returns v, s') \<Rightarrow> (Inr (if truthy v then Some wkt else None), s')
                            | (Raises e, s') \<Rightarrow> (Inl e, s')))))"

text \<open>How the process ends: \<^verbatim>\<open>sys.exit(n)\<close>, the end of \<^verbatim>\<open>main\<close> (status 0), or an
  exception that nothing caught, with which the interpreter prints a traceback and ends
  with status 1.\<close>

datatype outcome = Exit nat | Uncaught exc

fun exit_status :: "outcome \<Rightarrow> nat" where
  "exit_status (Exit n) = n"
| "exit_status (Uncaught e) = 1"

definition print_err :: "string \<Rightarrow> pstate \<Rightarrow> pstate" where
  "print_err line s = s\<lparr>err := err s @ [line]\<rparr>"

definition report :: "scan_dir \<Rightarrow> string \<Rightarrow> string \<Rightarrow> pstate \<Rightarrow> pstate" where
  "report d status msg s =
     (let ds = remove_all ''__DISC3D'' (scan_name d) in
      if status = ''ok'' then s\<lparr>out := out s @ [''OK   '' @ ds @ ''  '' @ msg]\<rparr>
      else print_err (''FAIL '' @ ds @ ''  reason='' @ msg) s)"

text \<open>
  The loop \<^verbatim>\<open>for s in scans: status, msg = process_scan(...)\<close> for a given
  \<^verbatim>\<open>process_scan\<close>; the result is the count \<^verbatim>\<open>ok\<close>, or the exception that left the loop.
  There is no \<^verbatim>\<open>try\<close> block in the loop. (A \<^verbatim>\<open>process_scan\<close> that fell off its end would
  return \<^verbatim>\<open>None\<close>, which does not unpack.)
\<close>

fun run_scans :: "step \<Rightarrow> scan_dir list \<Rightarrow> nat \<Rightarrow> pstate \<Rightarrow> (exc + nat) \<times> pstate" where
  "run_scans process_scan [] ok s = (Inr ok, s)"
| "run_scans process_scan (d # ds) ok s =
     (case process_scan (s\<lparr>dir := d\<rparr>) of
        (Raise e, s') \<Rightarrow> (Inl e, s')
      | (Next, s') \<Rightarrow> (Inl (Exc TypeError ''cannot unpack non-iterable NoneType object''), s')
      | (Return status msg, s') \<Rightarrow>
          run_scans process_scan ds (if status = ''ok'' then ok + 1 else ok)
            (report d status msg s'))"

text \<open>\<^verbatim>\<open>if ok == 0: sys.exit(1)\<close>, and the end of \<^verbatim>\<open>main\<close>.\<close>

definition finish :: "(exc + nat) \<times> pstate \<Rightarrow> outcome \<times> pstate" where
  "finish r =
     (case r of
        (Inl e, s) \<Rightarrow> (Uncaught e, s)
      | (Inr ok, s) \<Rightarrow> (if ok = 0 then Exit 1 else Exit 0, s))"

definition init_state :: pstate where
  "init_state = \<lparr>trace = [], out = [], err = [],
                 dir = \<lparr>sd_path = [], sd_entries = [], sd_models = Absent,
                        sd_mkdir_err = None\<rparr>\<rparr>"

text \<open>The arguments of Method B, with \<^verbatim>\<open>Path(args.root)\<close> and \<^verbatim>\<open>Path(args.list)\<close> as paths.\<close>

record args_B =
  b_root :: path
  b_list :: path
  b_mm_prj :: "string option"
  b_f_px :: real
  b_gpu :: "int option"

text \<open>\<^verbatim>\<open>if args.gpu is not None: try: ... except Exception: pass\<close>, from the initial state.\<close>

definition gpu_setup_B :: "engine \<Rightarrow> int option \<Rightarrow> pstate" where
  "gpu_setup_B eng gpu =
     (case gpu of
        None \<Rightarrow> init_state
      | Some idx \<Rightarrow> snd (try_except (set_gpu eng idx) any_exception skip init_state))"

definition main_B :: "engine \<Rightarrow> args_B \<Rightarrow> world \<Rightarrow> outcome \<times> pstate" where
  "main_B eng args w =
     (case w_tree w of
        None \<Rightarrow> (Exit 2, print_err (''[ERR] Root not found: '' @ path_str (b_root args)) init_state)
      | Some tree \<Rightarrow>
          let s1 = gpu_setup_B eng (b_gpu args)
          in case w_list w of
               None \<Rightarrow>
                 (Exit 2, print_err (''[ERR] List file not found: '' @ path_str (b_list args)) s1)
             | Some c \<Rightarrow>
                 (case read_text_strict c of
                    Inl e \<Rightarrow> (Uncaught e, s1)
                  | Inr text \<Rightarrow>
                      let dates = read_dates text in
                      if dates = []
                      then (Exit 2,
                            print_err (''[ERR] No valid dates in '' @ path_str (b_list args)) s1)
                      else
                        (case load_crs read_text_strict eng (b_mm_prj args) (w_prj w) s1 of
                           (Inl e, s2) \<Rightarrow> (Uncaught e, s2)
                         | (Inr crs, s2) \<Rightarrow>
                             let scans = find_scans_B tree dates in
                             if scans = []
                             then (Exit 1,
                                   s2\<lparr>out := out s2 @ [''[WARN] No matching scan folders found.'']\<rparr>)
                             else finish
                                    (run_scans (process_scan_B eng (b_f_px args) crs) scans 0 s2))))"

record args_A =
  a_root :: path
  a_list :: path
  a_mm_prj :: "string option"
  a_gpu :: "int option"
  a_xml_glob :: string
  a_key_limit :: int
  a_tie_limit :: int
  a_keep_keypoints :: bool
  a_keep_depth :: bool
  a_keep_matches :: bool

definition main_A :: "glob_oracle \<Rightarrow> engine \<Rightarrow> args_A \<Rightarrow> world \<Rightarrow> outcome \<times> pstate" where
  "main_A other eng args w =
     (case w_tree w of
        None \<Rightarrow> (Exit 2, print_err (''[ERR] Root not found: '' @ path_str (a_root args)) init_state)
      | Some tree \<Rightarrow>
          (case w_list w of
             None \<Rightarrow>
               (Exit 2, print_err (''[ERR] List not found: '' @ path_str (a_list args)) init_state)
           | Some c \<Rightarrow>
               (case read_text_ignore c of
                  Inl e \<Rightarrow> (Uncaught e, init_state)
                | Inr text \<Rightarrow>
                    let dates = read_dates text in
                    if dates = []
                    then (Exit 2,
                          print_err (''[ERR] No valid dates in '' @ path_str (a_list args)) init_state)
                    else
                      (case load_crs read_text_ignore eng (a_mm_prj args) (w_prj w) init_state of
                         (Inl e, s2) \<Rightarrow> (Uncaught e, s2)
                       | (Inr crs, s2) \<Rightarrow>
                           let scans = find_scans_A tree dates in
                           if scans = []
                           then (Exit 1, s2\<lparr>out := out s2 @ [''[WARN] No matching scan folders.'']\<rparr>)
                           else finish
                                  (run_scans
                                     (process_scan_A other eng crs (a_gpu args) (a_xml_glob args)
                                        (a_key_limit args) (a_tie_limit args)
                                        (a_keep_keypoints args) (a_keep_depth args)
                                        (a_keep_matches args))
                                     scans 0 s2)))))"

subsection \<open>The checks of \<^verbatim>\<open>process_scan\<close> and example folders\<close>

text \<open>\<^verbatim>\<open>imgs = sorted(edof.glob("*.png"))\<close>, as names.\<close>

definition png_names :: "scan_dir \<Rightarrow> string \<Rightarrow> string list" where
  "png_names sd uid = sort (glob_child sd (uid @ ''__edof'') ''*.png'')"

text \<open>The reason of the first of the three checks of Method B that fails, if one does.\<close>

definition validation_B :: "scan_dir \<Rightarrow> string option" where
  "validation_B sd =
     (case fst (get_uid_and_dataset sd) of
        None \<Rightarrow> Some no_edof_msg
      | Some uid \<Rightarrow>
          if png_names sd uid = []
          then Some (''No PNGs in '' @ path_str (sd_path sd @ [uid @ ''__edof'']))
          else if length (glob_entries ''*__CamPos.txt'' (sd_entries sd)) \<noteq> 1
          then Some ''Missing or multiple CamPos.txt''
          else None)"



text \<open>End-to-end scenario 1 of the specification: three images and one CamPos file.\<close>

definition demo_scan :: scan_dir where
  "demo_scan =
     \<lparr>sd_path = [''root'', ''20250502T082851__067870__Carabus_violaceus__DISC3D''],
      sd_entries = [(''067870__edof'', Dir [''b.png'', ''a.png'', ''c.png'']),
                    (''20250502T082851__067870__Carabus_violaceus__CamPos.txt'', File)],
      sd_models = Absent,
      sd_mkdir_err = None\<rparr>"

text \<open>The same folder without its CamPos file (scenario 2).\<close>

definition demo_scan_no_campos :: scan_dir where
  "demo_scan_no_campos = demo_scan\<lparr>sd_entries := [(''067870__edof'', Dir [''b.png'', ''a.png'', ''c.png''])]\<rparr>"



definition default_xml_glob :: string where
  "default_xml_glob = ''*_Calibrated_Cameras_*.xml''"

text \<open>A \<^verbatim>\<open>pathlib\<close> that finds nothing for a pattern that is not plain (the examples use
  plain patterns, so it is never asked).\<close>

definition glob_nothing :: glob_oracle where
  "glob_nothing g sd = Inr []"

text \<open>An engine that accepts every call and reports one sensor.\<close>

definition engine_ok :: engine where
  "engine_ok tr c = (if c = GetSensors then Returns (VSeq 1) else Returns VObj)"

subsection \<open>Notions used to state the properties\<close>

text \<open>The state after the engine was asked \<open>c\<close>.\<close>

definition after :: "engine \<Rightarrow> call \<Rightarrow> pstate \<Rightarrow> pstate" where
  "after eng c s = snd (ask eng c s)"




text \<open>The outcomes of \<^verbatim>\<open>process_scan\<close> for the units the loop of \<^verbatim>\<open>main\<close> reaches, in
  order: the loop stops at the first one that does not return.\<close>

fun unit_flows :: "step \<Rightarrow> scan_dir list \<Rightarrow> pstate \<Rightarrow> flow list" where
  "unit_flows process_scan [] s = []"
| "unit_flows process_scan (d # ds) s =
     (case process_scan (s\<lparr>dir := d\<rparr>) of
        (Return status msg, s') \<Rightarrow>
          Return status msg # unit_flows process_scan ds (report d status msg s')
      | (fl, s') \<Rightarrow> [fl])"

fun is_ok :: "flow \<Rightarrow> bool" where
  "is_ok (Return status msg) = (status = ''ok'')"
| "is_ok fl = False"

fun returned :: "flow \<Rightarrow> bool" where
  "returned (Return status msg) = True"
| "returned fl = False"





section \<open>Properties\<close>

subsection \<open>Reading the scan list\<close>

lemma rstrip_decomp: "rstrip s @ rev (takeWhile is_space (rev s)) = s"
  unfolding rstrip_def
  by (metis rev_append rev_rev_ident takeWhile_dropWhile_id)
lemma digit_not_space: "is_digit c \<Longrightarrow> \<not> is_space c"
  by (auto simp: is_digit_def is_space_def)
lemma T_not_space: "\<not> is_space CHR ''T''"
  by (simp add: is_space_def)
lemma rstrip_append_spaces: "list_all is_space r \<Longrightarrow> rstrip (g @ r) = rstrip g"
proof -
  assume "list_all is_space r"
  then have "dropWhile is_space (rev r @ rev g) = dropWhile is_space (rev g)"
    by (intro dropWhile_append2) (auto simp: list_all_iff)
  then show ?thesis by (simp add: rstrip_def)
qed
lemma rstrip_id: "g \<noteq> [] \<Longrightarrow> \<not> is_space (last g) \<Longrightarrow> rstrip g = g"
  unfolding rstrip_def by (cases "rev g") (auto simp: last_rev[symmetric] simp del: last_rev)
lemma stamp_last: "is_stamp g \<Longrightarrow> g \<noteq> [] \<and> \<not> is_space (last g)"
proof -
  assume a: "is_stamp g"
  then have l: "length g = 15" by (simp add: is_stamp_def)
  then have ne: "g \<noteq> []" by auto
  have "last g = g ! 14" using l ne by (simp add: last_conv_nth)
  moreover have "g ! 14 = drop 9 g ! 5" using l by simp
  moreover have "is_digit (drop 9 g ! 5)"
  proof -
    have "list_all is_digit (drop 9 g)" using a by (simp add: is_stamp_def)
    moreover have "5 < length (drop 9 g)" using l by simp
    ultimately show ?thesis unfolding list_all_length by blast
  qed
  ultimately show ?thesis using ne digit_not_space by simp
qed
lemma pat_match_strip: "pat_match line = (if is_stamp (strip line) then Some (strip line) else None)"
proof -
  define s where "s = dropWhile is_space line"
  define w where "w = rev (takeWhile is_space (rev s))"
  have dec: "rstrip s @ w = s" unfolding w_def by (rule rstrip_decomp)
  have wsp: "list_all is_space w" unfolding w_def by (simp add: list_all_iff) (metis set_takeWhileD)
  have st: "strip line = rstrip s" by (simp add: strip_def lstrip_def s_def)
  show ?thesis
  proof (cases "is_stamp (rstrip s)")
    case True
    then have l: "length (rstrip s) = 15" by (simp add: is_stamp_def)
    have "take 15 s = rstrip s" using l dec by (metis append_eq_conv_conj)
    moreover have "drop 15 s = w" using l dec by (metis append_eq_conv_conj)
    ultimately show ?thesis using True wsp st by (simp add: pat_match_def Let_def s_def[symmetric])
  next
    case False
    have "\<not> (is_stamp (take 15 s) \<and> list_all is_space (drop 15 s))"
    proof
      assume a: "is_stamp (take 15 s) \<and> list_all is_space (drop 15 s)"
      have "rstrip s = rstrip (take 15 s @ drop 15 s)" by simp
      also have "\<dots> = rstrip (take 15 s)" using a by (intro rstrip_append_spaces) simp
      also have "\<dots> = take 15 s" using stamp_last[of "take 15 s"] a by (intro rstrip_id) auto
      finally show False using a False by simp
    qed
    then show ?thesis using False st by (auto simp: pat_match_def Let_def s_def[symmetric])
  qed
qed
lemma stamp_first: "is_stamp g \<Longrightarrow> g \<noteq> [] \<and> is_digit (hd g)"
proof -
  assume a: "is_stamp g"
  then have l: "length g = 15" by (simp add: is_stamp_def)
  then have ne: "g \<noteq> []" by auto
  have "list_all is_digit (take 8 g)" using a by (simp add: is_stamp_def)
  moreover have "0 < length (take 8 g)" using l by simp
  ultimately have "is_digit (take 8 g ! 0)" unfolding list_all_length by blast
  then show ?thesis using ne by (simp add: hd_conv_nth)
qed
lemma rstrip_hd: "rstrip s \<noteq> [] \<Longrightarrow> hd (rstrip s) = hd s"
  by (metis hd_append2 rstrip_decomp)
lemma stamp_not_comment:
  assumes "is_stamp (strip l)" shows "strip l \<noteq> [] \<and> \<not> startswith (lstrip l) ''#''"
proof -
  have ne: "strip l \<noteq> []" and d: "is_digit (hd (strip l))" using stamp_first[OF assms] by auto
  have "hd (strip l) = hd (lstrip l)" using ne unfolding strip_def by (rule rstrip_hd)
  then have "is_digit (hd (lstrip l))" using d by simp
  moreover have "lstrip l \<noteq> []" using ne by (auto simp: strip_def rstrip_def)
  ultimately have "\<not> startswith (lstrip l) ''#''"
    by (cases "lstrip l") (auto simp: startswith_def is_digit_def)
  then show ?thesis using ne by simp
qed
lemma loop_eq: "read_dates_loop ls acc = acc @ map strip (filter (\<lambda>l. is_stamp (strip l)) ls)"
  by (induction ls arbitrary: acc) (auto simp: pat_match_strip dest: stamp_not_comment)

text \<open>
  Claim C9. Reading the scan list keeps exactly the lines that match
  \<^verbatim>\<open>^\d{8}T\d{6}$\<close> once the surrounding white space is trimmed, in their order and in
  their trimmed form; every other line (blank, starting with \<^verbatim>\<open>#\<close> after leading blanks,
  or anything else) is dropped, and the function returns for every text.
\<close>

theorem read_dates_keeps_stamps: "read_dates text = read_dates_spec text"
  by (simp add: read_dates_def read_dates_spec_def loop_eq)

theorem read_dates_keeps_stamps_witness:
  "read_dates (''20250502T082851'' @ [CHR 0x0D, CHR 0x0A] @ ''  #foo'' @ [CHR 0x0A]
               @ ''   20250502T082852  '' @ [CHR 0x0A, CHR 0x0A] @ ''2025050T082852'')
   = [''20250502T082851'', ''20250502T082852'']"
  unfolding read_dates_keeps_stamps by code_simp

subsection \<open>Validation of a scan folder\<close>






lemma process_scan_B_invalid:
  assumes "validation_B (dir s) = Some reason"
  shows "process_scan_B eng f_px crs s = (Return ''fail'' reason, s)"
proof -
  obtain uo ds where g: "get_uid_and_dataset (dir s) = (uo, ds)"
    by (cases "get_uid_and_dataset (dir s)")
  show ?thesis
  proof (cases uo)
    case None
    then show ?thesis using assms g by (simp add: validation_B_def process_scan_B_def)
  next
    case (Some uid)
    then show ?thesis using assms g
      by (simp add: validation_B_def process_scan_B_def png_names_def Let_def split: if_splits)
  qed
qed



lemma validation_B_None_iff:
  "validation_B sd = None \<longleftrightarrow>
     (\<exists>uid. fst (get_uid_and_dataset sd) = Some uid \<and> png_names sd uid \<noteq> [])
     \<and> length (glob_entries ''*__CamPos.txt'' (sd_entries sd)) = 1"
  by (auto simp: validation_B_def split: option.splits)


subsection \<open>The checks of Method A\<close>

lemma mkdir_models_Inr:
  assumes "mkdir_models sd = Inr sd'"
  shows "sd' = sd\<lparr>sd_models := IsDir (models_names sd)\<rparr>"
  using assms by (auto simp: mkdir_models_def models_names_def split: models_state.splits option.splits)

lemma mkdir_step_Inl: "mkdir_models (dir s) = Inl e \<Longrightarrow> mkdir_step s = (Raise e, s)"
  by (simp add: mkdir_step_def)

lemma mkdir_step_Inr: "mkdir_models (dir s) = Inr sd' \<Longrightarrow> mkdir_step s = (Next, s\<lparr>dir := sd'\<rparr>)"
  by (simp add: mkdir_step_def)



lemma process_scan_A_images:
  assumes "fst (get_uid_dataset (dir s)) = Some uid" and "png_names (dir s) uid \<noteq> []"
  shows "process_scan_A other eng crs gpu g k t kk kd km s =
       resolve_xml_A other eng crs gpu g k t kk kd km
         (map (\<lambda>p. path_str (sd_path (dir s) @ [uid @ ''__edof'', p])) (png_names (dir s) uid))
         (dataset_of (dir s)) s"
proof -
  have "get_uid_dataset (dir s) = (Some uid, dataset_of (dir s))"
    using assms by (simp add: get_uid_dataset_def)
  then show ?thesis using assms(2) by (simp add: process_scan_A_def png_names_def Let_def)
qed



lemma resolve_xml_A_none:
  assumes "mkdir_models (dir s) = Inr sd'" and "glob_models other g sd' = Inr []"
  shows "resolve_xml_A other eng crs gpu g k t kk kd km imgs ds s =
       (Return ''fail'' (no_xml_msg (path_str (sd_path (dir s) @ [''models''])) g), s\<lparr>dir := sd'\<rparr>)"
  using assms by (simp add: resolve_xml_A_def mkdir_step_def find_xml_def)




lemma plain_glob_relative: "plain_glob g \<Longrightarrow> g \<noteq> [] \<and> hd g \<noteq> CHR ''/''"
  by (cases g) (auto simp: plain_glob_def)

lemma glob_models_plain:
  assumes "plain_glob g"
  shows "glob_models other g sd = Inr (map (\<lambda>name. [name]) (filter (glob_match g) (models_names sd)))"
  using assms plain_glob_relative[OF assms] by (simp add: glob_models_def)





lemma demo_no_campos_glob: "glob_entries ''*__CamPos.txt'' (sd_entries demo_scan_no_campos) = []"
  by code_simp


lemma default_glob_plain: "plain_glob default_xml_glob"
  by code_simp



lemma demo_uid: "fst (get_uid_dataset demo_scan) = Some ''067870''"
  by code_simp

lemma demo_pngs: "png_names demo_scan ''067870'' = [''a.png'', ''b.png'', ''c.png'']"
  by code_simp







lemma demo_mkdir: "mkdir_models demo_scan = Inr (demo_scan\<lparr>sd_models := IsDir []\<rparr>)"
  by (simp add: mkdir_models_def demo_scan_def)

lemma demo_models_path:
  "path_str (sd_path demo_scan @ [''models''])
     = ''root/20250502T082851__067870__Carabus_violaceus__DISC3D/models''"
  by code_simp

lemma mkdir_models_fresh:
  assumes "sd_models sd = Absent" and "sd_mkdir_err sd = None"
  shows "mkdir_models sd = Inr (sd\<lparr>sd_models := IsDir []\<rparr>)"
  using assms by (simp add: mkdir_models_def)

text \<open>
  Claim C10. In Method B each of the three validation failures (no \<^verbatim>\<open><uid>__edof\<close>
  directory, no PNG in it, not exactly one CamPos file) makes \<^verbatim>\<open>process_scan\<close> return
  \<^verbatim>\<open>("fail", reason)\<close> with the whole state, the scan folder included, unchanged. In
  Method A a unit that passes the first two checks and for which the glob finds nothing
  is rejected after \<^verbatim>\<open>models.mkdir\<close> has succeeded: the folder it leaves behind has a
  \<^verbatim>\<open>models\<close> directory, with the names it had before if it was there. In particular a
  folder without \<^verbatim>\<open>models\<close>, in which a directory can be created, is rejected for every
  plain pattern and is left with an empty \<^verbatim>\<open>models\<close> directory.
\<close>

theorem validation_failure_atomicity:
  "((fst (get_uid_and_dataset (dir s)) = None
      \<or> (\<exists>uid. fst (get_uid_and_dataset (dir s)) = Some uid \<and> png_names (dir s) uid = [])
      \<or> length (glob_entries ''*__CamPos.txt'' (sd_entries (dir s))) \<noteq> 1)
     \<longrightarrow> (\<exists>reason. process_scan_B eng f_px crs s = (Return ''fail'' reason, s)))
   \<and> (fst (get_uid_dataset (dir s)) = Some uid \<and> png_names (dir s) uid \<noteq> []
        \<and> mkdir_models (dir s) = Inr sd' \<and> glob_models other g sd' = Inr []
     \<longrightarrow> process_scan_A other eng crs gpu g k t kk kd km s =
           (Return ''fail'' (no_xml_msg (path_str (sd_path (dir s) @ [''models''])) g),
            s\<lparr>dir := (dir s)\<lparr>sd_models := IsDir (models_names (dir s))\<rparr>\<rparr>))
   \<and> (fst (get_uid_dataset (dir s)) = Some uid \<and> png_names (dir s) uid \<noteq> []
        \<and> sd_models (dir s) = Absent \<and> sd_mkdir_err (dir s) = None \<and> plain_glob g
     \<longrightarrow> process_scan_A other eng crs gpu g k t kk kd km s =
           (Return ''fail'' (no_xml_msg (path_str (sd_path (dir s) @ [''models''])) g),
            s\<lparr>dir := (dir s)\<lparr>sd_models := IsDir []\<rparr>\<rparr>))"
proof (intro conjI impI)
  assume a: "fst (get_uid_and_dataset (dir s)) = None
      \<or> (\<exists>uid. fst (get_uid_and_dataset (dir s)) = Some uid \<and> png_names (dir s) uid = [])
      \<or> length (glob_entries ''*__CamPos.txt'' (sd_entries (dir s))) \<noteq> 1"
  have "validation_B (dir s) \<noteq> None"
  proof
    assume "validation_B (dir s) = None"
    then have "(\<exists>uid. fst (get_uid_and_dataset (dir s)) = Some uid \<and> png_names (dir s) uid \<noteq> [])
       \<and> length (glob_entries ''*__CamPos.txt'' (sd_entries (dir s))) = 1"
      by (simp only: validation_B_None_iff)
    with a show False by auto
  qed
  then obtain reason where "validation_B (dir s) = Some reason" by (cases "validation_B (dir s)") auto
  from process_scan_B_invalid[OF this]
  show "\<exists>reason. process_scan_B eng f_px crs s = (Return ''fail'' reason, s)" by (rule exI)
next
  assume "fst (get_uid_dataset (dir s)) = Some uid \<and> png_names (dir s) uid \<noteq> []
        \<and> mkdir_models (dir s) = Inr sd' \<and> glob_models other g sd' = Inr []"
  then have 1: "fst (get_uid_dataset (dir s)) = Some uid" and 2: "png_names (dir s) uid \<noteq> []"
    and 3: "mkdir_models (dir s) = Inr sd'" and 4: "glob_models other g sd' = Inr []" by simp_all
  have "process_scan_A other eng crs gpu g k t kk kd km s =
           (Return ''fail'' (no_xml_msg (path_str (sd_path (dir s) @ [''models''])) g),
            s\<lparr>dir := sd'\<rparr>)"
    unfolding process_scan_A_images[OF 1 2] by (rule resolve_xml_A_none[OF 3 4])
  then show "process_scan_A other eng crs gpu g k t kk kd km s =
           (Return ''fail'' (no_xml_msg (path_str (sd_path (dir s) @ [''models''])) g),
            s\<lparr>dir := (dir s)\<lparr>sd_models := IsDir (models_names (dir s))\<rparr>\<rparr>)"
    using mkdir_models_Inr[OF 3] by simp
next
  assume "fst (get_uid_dataset (dir s)) = Some uid \<and> png_names (dir s) uid \<noteq> []
        \<and> sd_models (dir s) = Absent \<and> sd_mkdir_err (dir s) = None \<and> plain_glob g"
  then have 1: "fst (get_uid_dataset (dir s)) = Some uid" and 2: "png_names (dir s) uid \<noteq> []"
    and 3: "sd_models (dir s) = Absent" and 4: "sd_mkdir_err (dir s) = None"
    and 5: "plain_glob g" by simp_all
  have m: "mkdir_models (dir s) = Inr ((dir s)\<lparr>sd_models := IsDir []\<rparr>)"
    using 3 4 by (rule mkdir_models_fresh)
  have h: "glob_models other g ((dir s)\<lparr>sd_models := IsDir []\<rparr>) = Inr []"
    by (simp add: glob_models_plain[OF 5] models_names_def)
  show "process_scan_A other eng crs gpu g k t kk kd km s =
           (Return ''fail'' (no_xml_msg (path_str (sd_path (dir s) @ [''models''])) g),
            s\<lparr>dir := (dir s)\<lparr>sd_models := IsDir []\<rparr>\<rparr>)"
    unfolding process_scan_A_images[OF 1 2] by (rule resolve_xml_A_none[OF m h])
qed

theorem validation_failure_atomicity_witness:
  "(\<exists>reason. process_scan_B engine_ok 10276.64 None (init_state\<lparr>dir := demo_scan_no_campos\<rparr>)
       = (Return ''fail'' reason, init_state\<lparr>dir := demo_scan_no_campos\<rparr>))
   \<and> sd_models demo_scan = Absent
   \<and> process_scan_A glob_nothing engine_ok None None default_xml_glob 250000 250000 False False False
        (init_state\<lparr>dir := demo_scan\<rparr>)
       = (Return ''fail''
            (no_xml_msg ''root/20250502T082851__067870__Carabus_violaceus__DISC3D/models''
               default_xml_glob),
          init_state\<lparr>dir := demo_scan\<lparr>sd_models := IsDir []\<rparr>\<rparr>)"
proof -
  have m: "sd_models demo_scan = Absent" and e: "sd_mkdir_err demo_scan = None"
    by (simp_all add: demo_scan_def)
  have h: "glob_models glob_nothing default_xml_glob (demo_scan\<lparr>sd_models := IsDir []\<rparr>) = Inr []"
    by (simp add: glob_models_plain[OF default_glob_plain] models_names_def)
  have n: "models_names demo_scan = []" by (simp add: models_names_def m)
  show ?thesis
    using validation_failure_atomicity[where s = "init_state\<lparr>dir := demo_scan_no_campos\<rparr>"
            and eng = engine_ok and f_px = "10276.64" and crs = None, THEN conjunct1]
      validation_failure_atomicity[where s = "init_state\<lparr>dir := demo_scan\<rparr>"
            and uid = "''067870''" and g = default_xml_glob and eng = engine_ok and crs = None
            and gpu = None and k = 250000 and t = 250000 and kk = False and kd = False
            and km = False and other = glob_nothing
            and sd' = "demo_scan\<lparr>sd_models := IsDir []\<rparr>", THEN conjunct2, THEN conjunct1]
      validation_failure_atomicity[where s = "init_state\<lparr>dir := demo_scan\<rparr>"
            and uid = "''067870''" and g = default_xml_glob and eng = engine_ok and crs = None
            and gpu = None and k = 250000 and t = 250000 and kk = False and kd = False
            and km = False and other = glob_nothing, THEN conjunct2, THEN conjunct2]
      demo_no_campos_glob demo_uid demo_pngs demo_mkdir demo_models_path m e h n default_glob_plain
    by simp
qed











subsection \<open>Fallback signatures\<close>










end
